theory Spec2Isabelle
  imports Main
begin

section \<open>The CogniCal memory service (src-tauri/src-python/main.py)\<close>

text \<open>
  The module keeps two globals, \<open>_kb_path\<close> and \<open>_initialized\<close>, and offers five
  functions to the host: \<open>initialize_memory\<close>, \<open>search_memory\<close>,
  \<open>store_conversation\<close>, \<open>get_memory_status\<close> and \<open>test_connection\<close>. Each returns
  a Python dict. The only effect outside the module is \<open>Path.mkdir\<close> on the file system.

  The embedding passes the globals and the file system explicitly, models a raised
  exception as \<open>Inl\<close>, and models a dict as an association list in insertion order.
\<close>

subsection \<open>Python values\<close>

datatype pyval = PyNone | PyBool bool | PyStr string | PyList "pyval list"

type_synonym pydict = "(string \<times> pyval) list"

subsection \<open>pathlib: pure paths (POSIX flavour)\<close>

text \<open>
  \<open>Path(s)\<close> keeps a root (\<open>''''\<close>, \<open>''/''\<close> or \<open>''//''\<close>) and the list of the
  components between slashes, dropping empty components and \<open>''.''\<close>. \<open>str\<close> of a
  path joins them again; the path with no root and no component prints as \<open>''.''\<close>.
\<close>

record pypath =
  root :: string
  tail :: "string list"

fun split_sep :: "char \<Rightarrow> string \<Rightarrow> string list" where
  "split_sep sep [] = [[]]"
| "split_sep sep (c # cs) =
     (if c = sep then [] # split_sep sep cs
      else (case split_sep sep cs of
              [] \<Rightarrow> [[c]]
            | w # ws \<Rightarrow> (c # w) # ws))"

fun join_sep :: "string \<Rightarrow> string list \<Rightarrow> string" where
  "join_sep sep [] = []"
| "join_sep sep [x] = x"
| "join_sep sep (x # y # zs) = x @ sep @ join_sep sep (y # zs)"

definition splitroot :: "string \<Rightarrow> string \<times> string" where
  \<comment> \<open>\<open>posixpath.splitroot\<close> without the drive, which is always empty\<close>
  "splitroot p =
     (if take 1 p \<noteq> ''/'' then ('''', p)
      else if take 1 (drop 1 p) \<noteq> ''/'' \<or> take 1 (drop 2 p) = ''/'' then (''/'', drop 1 p)
      else (take 2 p, drop 2 p))"

definition Path :: "string \<Rightarrow> pypath" where
  "Path s =
     (if s = [] then \<lparr>root = [], tail = []\<rparr>
      else (case splitroot s of
              (r, rel) \<Rightarrow>
                \<lparr>root = r, tail = filter (\<lambda>x. x \<noteq> [] \<and> x \<noteq> ''.'') (split_sep CHR ''/'' rel)\<rparr>))"

definition str_path :: "pypath \<Rightarrow> string" where
  "str_path p =
     (let s = root p @ join_sep ''/'' (tail p) in if s = [] then ''.'' else s)"

definition parent :: "pypath \<Rightarrow> pypath" where
  "parent p = (if tail p = [] then p else p\<lparr>tail := butlast (tail p)\<rparr>)"

subsection \<open>The file system\<close>

text \<open>
  The file system is the environment of the module. It is modelled as a table from
  absolute locations (lists of names below the root) to the kind of entry there, the
  working directory of the process, and the set of directories in which the process may
  not create entries. The root always exists. Symbolic links, name-length limits, search
  permission and changes made by other processes are outside the model.
\<close>

datatype ftype = Directory | Regular

datatype errno = ENOENT | ENOTDIR | EEXIST | EACCES

datatype exn = OSError errno string | ValueError string | AttributeError string

record filesystem =
  entries :: "string list \<rightharpoonup> ftype"
  cwd :: "string list"
  unwritable :: "string list set"

definition kind :: "filesystem \<Rightarrow> string list \<Rightarrow> ftype option" where
  "kind fs loc = (if loc = [] then Some Directory else entries fs loc)"

definition start :: "filesystem \<Rightarrow> pypath \<Rightarrow> string list" where
  "start fs p = (if root p = [] then cwd fs else [])"

definition step :: "string list \<Rightarrow> string \<Rightarrow> string list" where
  "step loc c = (if c = ''..'' then butlast loc else loc @ [c])"

text \<open>
  Name lookup: every component is looked up in the location reached so far, which has to
  be a directory. The location of the last component is returned whether or not
  anything exists there.
\<close>

fun walk :: "filesystem \<Rightarrow> string list \<Rightarrow> string list \<Rightarrow> errno + string list" where
  "walk fs loc [] = Inr loc"
| "walk fs loc (c # cs) =
     (case kind fs loc of
        None \<Rightarrow> Inl ENOENT
      | Some Regular \<Rightarrow> Inl ENOTDIR
      | Some Directory \<Rightarrow> walk fs (step loc c) cs)"

definition has_nul :: "pypath \<Rightarrow> bool" where
  "has_nul p = (CHR 0x00 \<in> set (str_path p))"

definition stat :: "filesystem \<Rightarrow> pypath \<Rightarrow> errno + ftype" where
  "stat fs p =
     (case walk fs (start fs p) (tail p) of
        Inl e \<Rightarrow> Inl e
      | Inr loc \<Rightarrow> (case kind fs loc of None \<Rightarrow> Inl ENOENT | Some k \<Rightarrow> Inr k))"

definition is_dir :: "filesystem \<Rightarrow> pypath \<Rightarrow> bool" where
  \<comment> \<open>\<open>Path.is_dir\<close>: false, not an exception, for a missing path or one with a null byte\<close>
  "is_dir fs p = (\<not> has_nul p \<and> stat fs p = Inr Directory)"

definition add_dir :: "filesystem \<Rightarrow> string list \<Rightarrow> filesystem" where
  "add_dir fs loc = fs\<lparr>entries := (entries fs)(loc \<mapsto> Directory)\<rparr>"

definition os_mkdir :: "filesystem \<Rightarrow> pypath \<Rightarrow> exn + filesystem" where
  "os_mkdir fs p =
     (if has_nul p then Inl (ValueError ''embedded null byte'')
      else (case walk fs (start fs p) (tail p) of
              Inl e \<Rightarrow> Inl (OSError e (str_path p))
            | Inr loc \<Rightarrow>
                if kind fs loc \<noteq> None then Inl (OSError EEXIST (str_path p))
                else if tail p = [] \<or> last (tail p) = ''..'' then Inl (OSError ENOENT (str_path p))
                else if butlast loc \<in> unwritable fs then Inl (OSError EACCES (str_path p))
                else Inr (add_dir fs loc)))"

definition is_FileNotFoundError :: "exn \<Rightarrow> bool" where
  "is_FileNotFoundError e = (case e of OSError ENOENT _ \<Rightarrow> True | _ \<Rightarrow> False)"

definition is_OSError :: "exn \<Rightarrow> bool" where
  "is_OSError e = (case e of OSError _ _ \<Rightarrow> True | _ \<Rightarrow> False)"

text \<open>
  \<open>Path.mkdir(mode, parents, exist_ok)\<close> of pathlib: try \<open>os.mkdir\<close>; on
  FileNotFoundError create the parent first (when \<open>parents\<close>) and try once more without
  \<open>parents\<close>; on any other OSError succeed only if \<open>exist_ok\<close> and the path is a
  directory. A failure leaves the directories created so far in place, so the file
  system is returned in both cases.
\<close>

function mkdir :: "filesystem \<Rightarrow> pypath \<Rightarrow> bool \<Rightarrow> bool \<Rightarrow> (exn + unit) \<times> filesystem" where
  "mkdir fs p parents exist_ok =
     (case os_mkdir fs p of
        Inr fs' \<Rightarrow> (Inr (), fs')
      | Inl e \<Rightarrow>
          if is_FileNotFoundError e then
            (if \<not> parents \<or> parent p = p then (Inl e, fs)
             else (case mkdir fs (parent p) True True of
                     (Inl e', fs') \<Rightarrow> (Inl e', fs')
                   | (Inr _, fs') \<Rightarrow> mkdir fs' p False exist_ok))
          else if is_OSError e then
            (if \<not> exist_ok \<or> \<not> is_dir fs p then (Inl e, fs) else (Inr (), fs))
          else (Inl e, fs))"
  by pat_completeness auto
termination
  by (relation "measure (\<lambda>(fs, p, parents, exist_ok). 2 * length (tail p) + (if parents then 1 else 0))")
     (auto simp: parent_def split: if_splits)

declare mkdir.simps [simp del]

subsection \<open>The module's globals and the interpreter\<close>

record service_state =
  kb_path :: "pypath option"
  initialized :: bool

definition initial_state :: service_state where
  \<comment> \<open>\<open>_kb_path = None\<close>, \<open>_initialized = False\<close>\<close>
  "initial_state = \<lparr>kb_path = None, initialized = False\<rparr>"

record world =
  globals :: service_state
  fsys :: filesystem

text \<open>
  What the module reads from the interpreter: \<open>sys.version\<close>, \<open>sys.platform\<close>,
  \<open>sys.executable\<close> (which may be \<open>None\<close> in an embedded interpreter), and the text
  that \<open>str(e)\<close> gives for an exception.
\<close>

record runtime =
  sys_version :: string
  sys_platform :: string
  sys_executable :: "string option"
  str_exn :: "exn \<Rightarrow> string"

definition str_opt_path :: "pypath option \<Rightarrow> string" where
  \<comment> \<open>\<open>str\<close> of a value of type \<open>Optional[Path]\<close>, as the f-string formats it\<close>
  "str_opt_path v = (case v of None \<Rightarrow> ''None'' | Some p \<Rightarrow> str_path p)"

definition py_opt_str :: "string option \<Rightarrow> pyval" where
  "py_opt_str v = (case v of None \<Rightarrow> PyNone | Some s \<Rightarrow> PyStr s)"

subsection \<open>The five operations\<close>

text \<open>
  Every operation returns \<open>Inr\<close> of the dict it returns or \<open>Inl\<close> of the exception
  that leaves it, together with the world after the call. The body of a \<open>try\<close> is a
  definition of its own; the operation applies the \<open>except Exception\<close> clause to it.
\<close>

definition initialize_try :: "string \<Rightarrow> world \<Rightarrow> (exn + pydict) \<times> world" where
  "initialize_try kb_path_str w =
     (let w1 = w\<lparr>globals := (globals w)\<lparr>kb_path := Some (Path kb_path_str)\<rparr>\<rparr> in
      case kb_path (globals w1) of
        None \<Rightarrow> (Inl (AttributeError ''NoneType object has no attribute mkdir''), w1)
      | Some p \<Rightarrow>
          (case mkdir (fsys w1) p True True of
             (Inl e, fs') \<Rightarrow> (Inl e, w1\<lparr>fsys := fs'\<rparr>)
           | (Inr _, fs') \<Rightarrow>
               (let w2 = \<lparr>globals = (globals w1)\<lparr>initialized := True\<rparr>, fsys = fs'\<rparr> in
                (Inr [(''success'', PyBool True),
                      (''message'', PyStr (''Memory service initialized at '' @
                                            str_opt_path (kb_path (globals w2)))),
                      (''kb_path'', PyStr (str_opt_path (kb_path (globals w2))))],
                 w2))))"

definition initialize_memory :: "runtime \<Rightarrow> string \<Rightarrow> world \<Rightarrow> (exn + pydict) \<times> world" where
  "initialize_memory rt kb_path_str w =
     (case initialize_try kb_path_str w of
        (Inl e, w') \<Rightarrow>
          (Inr [(''success'', PyBool False),
                (''message'', PyStr (''Failed to initialize: '' @ str_exn rt e)),
                (''error'', PyStr (str_exn rt e))],
           w')
      | (Inr d, w') \<Rightarrow> (Inr d, w'))"

definition search_try :: "string \<Rightarrow> int \<Rightarrow> world \<Rightarrow> (exn + pydict) \<times> world" where
  "search_try query limit w =
     (Inr [(''success'', PyBool True),
           (''query'', PyStr query),
           (''results'', PyList []),
           (''message'', PyStr ''Search functionality coming soon'')],
      w)"

definition search_memory :: "runtime \<Rightarrow> string \<Rightarrow> int \<Rightarrow> world \<Rightarrow> (exn + pydict) \<times> world" where
  "search_memory rt query limit w =
     (if \<not> initialized (globals w) then
        (Inr [(''success'', PyBool False),
              (''message'', PyStr ''Memory service not initialized''),
              (''results'', PyList [])],
         w)
      else (case search_try query limit w of
              (Inl e, w') \<Rightarrow>
                (Inr [(''success'', PyBool False),
                      (''message'', PyStr (''Search failed: '' @ str_exn rt e)),
                      (''error'', PyStr (str_exn rt e)),
                      (''results'', PyList [])],
                 w')
            | (Inr d, w') \<Rightarrow> (Inr d, w')))"

definition store_try ::
  "string \<Rightarrow> string \<Rightarrow> string \<Rightarrow> (string \<times> string) list option \<Rightarrow> world \<Rightarrow> (exn + pydict) \<times> world" where
  "store_try conversation_id user_message assistant_message metadata w =
     (Inr [(''success'', PyBool True),
           (''conversation_id'', PyStr conversation_id),
           (''message'', PyStr ''Conversation stored successfully'')],
      w)"

definition store_conversation ::
  "runtime \<Rightarrow> string \<Rightarrow> string \<Rightarrow> string \<Rightarrow> (string \<times> string) list option \<Rightarrow> world
     \<Rightarrow> (exn + pydict) \<times> world" where
  "store_conversation rt conversation_id user_message assistant_message metadata w =
     (if \<not> initialized (globals w) then
        (Inr [(''success'', PyBool False),
              (''message'', PyStr ''Memory service not initialized'')],
         w)
      else (case store_try conversation_id user_message assistant_message metadata w of
              (Inl e, w') \<Rightarrow>
                (Inr [(''success'', PyBool False),
                      (''message'', PyStr (''Storage failed: '' @ str_exn rt e)),
                      (''error'', PyStr (str_exn rt e))],
                 w')
            | (Inr d, w') \<Rightarrow> (Inr d, w')))"

definition status_try :: "runtime \<Rightarrow> world \<Rightarrow> (exn + pydict) \<times> world" where
  "status_try rt w =
     (Inr [(''initialized'', PyBool (initialized (globals w))),
           (''kb_path'', (case kb_path (globals w) of
                            None \<Rightarrow> PyNone
                          | Some p \<Rightarrow> PyStr (str_path p))),
           (''python_version'', PyStr (sys_version rt)),
           (''available'', PyBool (initialized (globals w)))],
      w)"

definition get_memory_status :: "runtime \<Rightarrow> world \<Rightarrow> (exn + pydict) \<times> world" where
  "get_memory_status rt w =
     (case status_try rt w of
        (Inl e, w') \<Rightarrow>
          (Inr [(''initialized'', PyBool False),
                (''error'', PyStr (str_exn rt e)),
                (''available'', PyBool False)],
           w')
      | (Inr d, w') \<Rightarrow> (Inr d, w'))"

definition test_connection :: "runtime \<Rightarrow> world \<Rightarrow> (exn + pydict) \<times> world" where
  "test_connection rt w =
     (Inr [(''success'', PyBool True),
           (''message'', PyStr ''Python plugin is working!''),
           (''python_version'', PyStr (sys_version rt)),
           (''platform'', PyStr (sys_platform rt)),
           (''executable'', py_opt_str (sys_executable rt))],
      w)"

subsection \<open>Calls from the host\<close>

datatype operation =
    Initialize string
  | Search string int
  | Store string string string "(string \<times> string) list option"
  | GetStatus
  | TestConnection

fun call :: "runtime \<Rightarrow> operation \<Rightarrow> world \<Rightarrow> (exn + pydict) \<times> world" where
  "call rt (Initialize s) w = initialize_memory rt s w"
| "call rt (Search q n) w = search_memory rt q n w"
| "call rt (Store c u a m) w = store_conversation rt c u a m w"
| "call rt GetStatus w = get_memory_status rt w"
| "call rt TestConnection w = test_connection rt w"

fun run :: "runtime \<Rightarrow> operation list \<Rightarrow> world \<Rightarrow> world" where
  "run rt [] w = w"
| "run rt (op # ops) w = run rt ops (snd (call rt op w))"

text \<open>The worlds the module can be in: it starts with both globals unset, on any file system.\<close>

inductive reachable :: "runtime \<Rightarrow> world \<Rightarrow> bool" for rt :: runtime where
  start: "reachable rt \<lparr>globals = initial_state, fsys = fs0\<rparr>"
| after: "reachable rt w \<Longrightarrow> reachable rt (snd (call rt op w))"

subsection \<open>Reading a result\<close>

definition bool_at :: "string \<Rightarrow> pydict \<Rightarrow> bool option" where
  "bool_at k d = (case map_of d k of Some (PyBool b) \<Rightarrow> Some b | _ \<Rightarrow> None)"

definition succeeded :: "exn + pydict \<Rightarrow> bool" where
  "succeeded r = (case r of Inl _ \<Rightarrow> False | Inr d \<Rightarrow> bool_at ''success'' d = Some True)"

definition flag_key :: "operation \<Rightarrow> string" where
  \<comment> \<open>the key under which an operation reports whether it worked\<close>
  "flag_key op = (case op of GetStatus \<Rightarrow> ''available'' | _ \<Rightarrow> ''success'')"

fun is_initialize :: "operation \<Rightarrow> bool" where
  "is_initialize (Initialize s) = True"
| "is_initialize _ = False"

fun init_succeeds :: "runtime \<Rightarrow> operation list \<Rightarrow> world \<Rightarrow> bool" where
  "init_succeeds rt [] w = False"
| "init_succeeds rt (op # ops) w =
     ((is_initialize op \<and> succeeded (fst (call rt op w)))
      \<or> init_succeeds rt ops (snd (call rt op w)))"

definition kb_dir_exists :: "world \<Rightarrow> bool" where
  \<comment> \<open>the path is set and names a directory that exists\<close>
  "kb_dir_exists w = (case kb_path (globals w) of None \<Rightarrow> False | Some p \<Rightarrow> is_dir (fsys w) p)"

text \<open>
  The spec speaks of the resolved path. A resolved path is absolute and has no \<open>..\<close>
  component left; this predicate states that, for comparison with what the code stores.
\<close>

definition is_resolved :: "pypath \<Rightarrow> bool" where
  "is_resolved p = (root p \<noteq> [] \<and> ''..'' \<notin> set (tail p))"

subsection \<open>A concrete interpreter and file system\<close>

definition demo_rt :: runtime where
  "demo_rt = \<lparr>sys_version = ''3.12.3'', sys_platform = ''linux'',
              sys_executable = Some ''/usr/bin/python3'',
              str_exn = (\<lambda>e. case e of
                           OSError n f \<Rightarrow> ''OSError: '' @ f
                         | ValueError m \<Rightarrow> m
                         | AttributeError m \<Rightarrow> m)\<rparr>"

definition demo_fs :: filesystem where
  \<comment> \<open>a home directory holding one regular file, \<open>notes.txt\<close>\<close>
  "demo_fs = \<lparr>entries = [[''home''] \<mapsto> Directory, [''home'', ''notes.txt''] \<mapsto> Regular],
              cwd = [''home''], unwritable = {}\<rparr>"

definition demo_world :: world where
  "demo_world = \<lparr>globals = initial_state, fsys = demo_fs\<rparr>"

section \<open>Properties of paths\<close>

text \<open>
  Splitting at a separator gives the pieces without the separator that join to the string
  again; this fixes the components of a path.
\<close>

lemma split_sep_nonempty: "split_sep sep s \<noteq> []"
  by (induction s) (auto split: list.splits)

lemma split_sep_no_sep: "c \<in> set (split_sep sep s) \<Longrightarrow> sep \<notin> set c"
  by (induction s arbitrary: c) (auto split: if_splits list.splits)

lemma split_sep_concat: "concat (map (\<lambda>c. c @ [sep]) (split_sep sep s)) = s @ [sep]"
  by (induction s) (auto split: list.splits simp: split_sep_nonempty)

lemma split_sep_leading: "split_sep sep (sep # s) = [] # split_sep sep s"
  by simp

lemma join_sep_concat: "xs \<noteq> [] \<Longrightarrow> concat (map (\<lambda>c. c @ sep) xs) = join_sep sep xs @ sep"
  by (induction sep xs rule: join_sep.induct) simp_all

lemma join_sep_butlast:
  "join_sep [c] xs = butlast (concat (map (\<lambda>x. x @ [c]) xs))"
proof (cases "xs = []")
  case True
  then show ?thesis by simp
next
  case False
  then show ?thesis by (simp add: join_sep_concat [of xs "[c]"])
qed

lemma Path_tail:
  "tail (Path s) = filter (\<lambda>x. x \<noteq> [] \<and> x \<noteq> ''.'') (split_sep CHR ''/'' s)"
proof (cases s)
  case Nil
  then show ?thesis by (simp add: Path_def)
next
  case (Cons a s1)
  show ?thesis
  proof (cases "a = CHR ''/''")
    case False
    with Cons show ?thesis by (simp add: Path_def splitroot_def)
  next
    case True
    note a = this
    show ?thesis
    proof (cases s1)
      case Nil
      with Cons a show ?thesis by (simp add: Path_def splitroot_def)
    next
      case (Cons b s2)
      note s1 = this
      show ?thesis
      proof (cases "b = CHR ''/''")
        case False
        with \<open>s = a # s1\<close> a s1 show ?thesis
          by (simp add: Path_def splitroot_def del: split_sep.simps(2))
             (simp)
      next
        case True
        with \<open>s = a # s1\<close> a s1 show ?thesis
          by (cases s2) (auto simp: Path_def splitroot_def)
      qed
    qed
  qed
qed

lemma Path_root:
  "root (Path s) =
     (if length (takeWhile (\<lambda>c. c = CHR ''/'') s) = 0 then []
      else if length (takeWhile (\<lambda>c. c = CHR ''/'') s) = 2 then ''//'' else ''/'')"
proof (cases s)
  case Nil
  then show ?thesis by (simp add: Path_def)
next
  case (Cons a s1)
  note s = this
  show ?thesis
  proof (cases s1)
    case Nil
    with s show ?thesis by (simp add: Path_def splitroot_def)
  next
    case (Cons b s2)
    with s show ?thesis
      by (cases s2) (auto simp: Path_def splitroot_def)
  qed
qed

lemma str_path_eq:
  "str_path p =
     (if root p @ butlast (concat (map (\<lambda>c. c @ ''/'') (tail p))) = [] then ''.''
      else root p @ butlast (concat (map (\<lambda>c. c @ ''/'') (tail p))))"
  by (simp only: str_path_def Let_def join_sep_butlast)

section \<open>Properties of the file-system model\<close>

text \<open>Creating a directory where nothing was leaves every other location as it was.\<close>

lemma kind_add_dir:
  "kind (add_dir fs x) loc = (if loc = x \<and> x \<noteq> [] then Some Directory else kind fs loc)"
  by (simp add: kind_def add_dir_def)

lemma start_add_dir: "start (add_dir fs x) p = start fs p"
  by (simp add: start_def add_dir_def)

lemma walk_add_dir:
  "walk fs l cs = Inr loc \<Longrightarrow> kind fs x = None \<Longrightarrow> walk (add_dir fs x) l cs = Inr loc"
proof (induction cs arbitrary: l)
  case Nil
  then show ?case by simp
next
  case (Cons c cs)
  from Cons.prems(1) have d: "kind fs l = Some Directory"
    by (simp split: option.splits ftype.splits)
  with Cons.prems(1) have w: "walk fs (step l c) cs = Inr loc" by simp
  from d Cons.prems(2) have "l \<noteq> x" by auto
  with d have "kind (add_dir fs x) l = Some Directory"
    by (simp add: kind_add_dir)
  with Cons.IH [OF w Cons.prems(2)] show ?case by simp
qed

lemma os_mkdir_is_dir:
  assumes "os_mkdir fs p = Inr fs'"
  shows "is_dir fs' p"
proof -
  from assms have n: "\<not> has_nul p"
    by (auto simp: os_mkdir_def split: if_splits)
  from assms n obtain loc where w: "walk fs (start fs p) (tail p) = Inr loc"
    by (auto simp: os_mkdir_def split: sum.splits)
  from assms n w have k: "kind fs loc = None" and fs': "fs' = add_dir fs loc"
    by (auto simp: os_mkdir_def split: if_splits)
  from k have "loc \<noteq> []" by (auto simp: kind_def)
  then have k': "kind fs' loc = Some Directory" by (simp add: fs' kind_add_dir)
  from walk_add_dir [OF w k] have "walk fs' (start fs' p) (tail p) = Inr loc"
    by (simp add: start_add_dir fs')
  with k' n show ?thesis by (simp add: is_dir_def stat_def)
qed

lemma mkdir_is_dir:
  "mkdir fs p parents exist_ok = (Inr u, fs') \<Longrightarrow> is_dir fs' p"
proof (induction fs p parents exist_ok arbitrary: u fs' rule: mkdir.induct)
  case (1 fs p parents exist_ok)
  note unfolded = "1.prems" [unfolded mkdir.simps [of fs p parents exist_ok]]
  show ?case
  proof (cases "os_mkdir fs p")
    case (Inr fs1)
    with unfolded have "fs' = fs1" by simp
    with Inr show ?thesis by (simp add: os_mkdir_is_dir)
  next
    case (Inl e)
    show ?thesis
    proof (cases "is_FileNotFoundError e")
      case True
      with Inl unfolded have go: "parents" "parent p \<noteq> p"
        by (auto split: if_splits)
      with Inl True unfolded obtain u1 fs1 where
        a: "mkdir fs (parent p) True True = (Inr u1, fs1)"
        and b: "mkdir fs1 p False exist_ok = (Inr u, fs')"
        by (auto split: prod.splits sum.splits)
      from go have c: "\<not> (\<not> parents \<or> parent p = p)" by simp
      from "1.IH"(2) [OF Inl True c a [symmetric] refl b] show ?thesis .
    next
      case False
      with Inl unfolded show ?thesis
        by (auto split: if_splits)
    qed
  qed
qed

lemma mkdir_existing:
  assumes "is_dir fs p"
  shows "mkdir fs p parents True = (Inr (), fs)"
proof -
  from assms have n: "\<not> has_nul p" and s: "stat fs p = Inr Directory"
    by (simp_all add: is_dir_def)
  from s obtain loc where "walk fs (start fs p) (tail p) = Inr loc" "kind fs loc = Some Directory"
    by (auto simp: stat_def split: sum.splits option.splits)
  with n have "os_mkdir fs p = Inl (OSError EEXIST (str_path p))"
    by (simp add: os_mkdir_def)
  with assms show ?thesis
    by (subst mkdir.simps) (simp add: is_FileNotFoundError_def is_OSError_def)
qed

section \<open>Properties of the operations\<close>

text \<open>
  \<open>initialize_memory\<close> in one equation: the path is stored first, then the outcome of
  \<open>mkdir\<close> decides the result and the flag.
\<close>

lemma initialize_memory_eq:
  "initialize_memory rt s w =
     (case mkdir (fsys w) (Path s) True True of
        (Inl e, fs') \<Rightarrow>
          (Inr [(''success'', PyBool False),
                (''message'', PyStr (''Failed to initialize: '' @ str_exn rt e)),
                (''error'', PyStr (str_exn rt e))],
           \<lparr>globals = (globals w)\<lparr>kb_path := Some (Path s)\<rparr>, fsys = fs'\<rparr>)
      | (Inr u, fs') \<Rightarrow>
          (Inr [(''success'', PyBool True),
                (''message'', PyStr (''Memory service initialized at '' @ str_path (Path s))),
                (''kb_path'', PyStr (str_path (Path s)))],
           \<lparr>globals = \<lparr>kb_path = Some (Path s), initialized = True\<rparr>, fsys = fs'\<rparr>))"
  by (simp add: initialize_memory_def initialize_try_def Let_def str_opt_path_def
           split: prod.splits sum.splits)

lemma initialize_succeeded_iff:
  "succeeded (fst (initialize_memory rt s w)) = (\<exists>u. fst (mkdir (fsys w) (Path s) True True) = Inr u)"
  by (simp add: initialize_memory_eq succeeded_def bool_at_def split: prod.splits sum.splits)

lemma search_memory_world: "snd (search_memory rt q n w) = w"
  by (simp add: search_memory_def search_try_def)

lemma store_conversation_world: "snd (store_conversation rt c u a m w) = w"
  by (simp add: store_conversation_def store_try_def)

lemma get_memory_status_world: "snd (get_memory_status rt w) = w"
  by (simp add: get_memory_status_def status_try_def)

lemma test_connection_world: "snd (test_connection rt w) = w"
  by (simp add: test_connection_def)

lemma call_other_world: "\<not> is_initialize op \<Longrightarrow> snd (call rt op w) = w"
  by (cases op)
     (simp_all add: search_memory_world store_conversation_world get_memory_status_world
        test_connection_world)

lemma run_others_world: "\<forall>op\<in>set ops. \<not> is_initialize op \<Longrightarrow> run rt ops w = w"
  by (induction ops arbitrary: w) (simp_all add: call_other_world)

lemma reachable_run: "reachable rt w \<Longrightarrow> reachable rt (run rt ops w)"
  by (induction ops arbitrary: w) (auto intro: reachable.after)

lemma initialize_flag:
  "initialized (globals (snd (initialize_memory rt s w))) =
     (initialized (globals w) \<or> succeeded (fst (initialize_memory rt s w)))"
  by (simp add: initialize_memory_eq succeeded_def bool_at_def split: prod.splits sum.splits)

lemma call_flag:
  "initialized (globals (snd (call rt op w))) =
     (initialized (globals w) \<or> is_initialize op \<and> succeeded (fst (call rt op w)))"
  by (cases op)
     (simp_all add: initialize_flag search_memory_world store_conversation_world
        get_memory_status_world test_connection_world)

lemma run_flag:
  "initialized (globals (run rt ops w)) = (initialized (globals w) \<or> init_succeeds rt ops w)"
  by (induction ops arbitrary: w) (auto simp: call_flag)

lemma reachable_path_set:
  "reachable rt w \<Longrightarrow> initialized (globals w) \<Longrightarrow> kb_path (globals w) \<noteq> None"
proof (induction rule: reachable.induct)
  case (start fs0)
  then show ?case by (simp add: initial_state_def)
next
  case (after w op)
  show ?case
  proof (cases op)
    case (Initialize s)
    then show ?thesis
      by (simp add: initialize_memory_eq split: prod.splits sum.splits)
  next
    case (Search q n)
    with after show ?thesis by (simp add: search_memory_world)
  next
    case (Store c u a m)
    with after show ?thesis by (simp add: store_conversation_world)
  next
    case GetStatus
    with after show ?thesis by (simp add: get_memory_status_world)
  next
    case TestConnection
    with after show ?thesis by (simp add: test_connection_world)
  qed
qed

section \<open>The claims\<close>

text \<open>Definitions unfolded when a call is evaluated on a concrete world.\<close>

lemmas fs_defs = os_mkdir_def has_nul_def str_path_def start_def kind_def step_def add_dir_def
  is_FileNotFoundError_def is_OSError_def parent_def is_dir_def stat_def Path_def splitroot_def

lemmas op_defs = initialize_memory_def initialize_try_def search_memory_def search_try_def
  store_conversation_def store_try_def get_memory_status_def status_try_def test_connection_def
  str_opt_path_def py_opt_str_def succeeded_def bool_at_def kb_dir_exists_def

lemmas demo_defs = demo_world_def demo_fs_def demo_rt_def initial_state_def

subsection \<open>C1: the flag and the directory\<close>

text \<open>
  C1 as stated fails. Two calls on the demo file system reach a world where the flag is
  set and the path does not name a directory: \<open>initialize_memory ''kb''\<close> succeeds, then
  \<open>initialize_memory ''/home/notes.txt/kb''\<close> fails below a regular file, after it has
  stored its path; the flag stays set.
\<close>

theorem kb_dir_invariant_counterexample:
  "reachable demo_rt (run demo_rt [Initialize ''kb'', Initialize ''/home/notes.txt/kb''] demo_world)
   \<and> initialized (globals (run demo_rt [Initialize ''kb'', Initialize ''/home/notes.txt/kb''] demo_world))
   \<and> \<not> kb_dir_exists (run demo_rt [Initialize ''kb'', Initialize ''/home/notes.txt/kb''] demo_world)"
proof -
  have "reachable demo_rt demo_world"
    unfolding demo_world_def by (rule reachable.start)
  then have "reachable demo_rt (run demo_rt [Initialize ''kb'', Initialize ''/home/notes.txt/kb''] demo_world)"
    by (rule reachable_run)
  moreover have "initialized (globals (run demo_rt [Initialize ''kb'', Initialize ''/home/notes.txt/kb''] demo_world))"
    by (simp add: op_defs mkdir.simps fs_defs demo_defs)
  moreover have "\<not> kb_dir_exists (run demo_rt [Initialize ''kb'', Initialize ''/home/notes.txt/kb''] demo_world)"
    by (simp add: op_defs mkdir.simps fs_defs demo_defs)
  ultimately show ?thesis by simp
qed

text \<open>
  C1, amended: in every reachable world, if \<open>initialized\<close> is true then the path is set;
  and after an \<open>initialize_memory\<close> call that succeeds, followed by any calls of the other
  four operations, the flag is true and the path is the path of that call and names a
  directory that exists.
\<close>

theorem kb_dir_after_initialize:
  assumes "reachable rt w"
  shows "(initialized (globals w) \<longrightarrow> kb_path (globals w) \<noteq> None)
       \<and> (\<forall>s ops. succeeded (fst (call rt (Initialize s) w))
                   \<and> (\<forall>op\<in>set ops. \<not> is_initialize op)
            \<longrightarrow> initialized (globals (run rt ops (snd (call rt (Initialize s) w))))
              \<and> kb_path (globals (run rt ops (snd (call rt (Initialize s) w)))) = Some (Path s)
              \<and> kb_dir_exists (run rt ops (snd (call rt (Initialize s) w))))"
proof (intro conjI allI impI)
  assume "initialized (globals w)"
  with assms show "kb_path (globals w) \<noteq> None" by (rule reachable_path_set)
next
  fix s ops
  assume a: "succeeded (fst (call rt (Initialize s) w))
             \<and> (\<forall>op\<in>set ops. \<not> is_initialize op)"
  then have r: "run rt ops (snd (call rt (Initialize s) w)) = snd (initialize_memory rt s w)"
    by (simp add: run_others_world)
  from a obtain u where "fst (mkdir (fsys w) (Path s) True True) = Inr u"
    by (auto simp: initialize_succeeded_iff)
  then obtain fs' where m: "mkdir (fsys w) (Path s) True True = (Inr u, fs')"
    by (cases "mkdir (fsys w) (Path s) True True") simp
  then have d: "is_dir fs' (Path s)" by (rule mkdir_is_dir)
  from m have "snd (initialize_memory rt s w) =
      \<lparr>globals = \<lparr>kb_path = Some (Path s), initialized = True\<rparr>, fsys = fs'\<rparr>"
    by (simp add: initialize_memory_eq)
  with r have w': "run rt ops (snd (call rt (Initialize s) w)) =
      \<lparr>globals = \<lparr>kb_path = Some (Path s), initialized = True\<rparr>, fsys = fs'\<rparr>"
    by simp
  show "initialized (globals (run rt ops (snd (call rt (Initialize s) w))))"
    unfolding w' by simp
  show "kb_path (globals (run rt ops (snd (call rt (Initialize s) w)))) = Some (Path s)"
    unfolding w' by simp
  show "kb_dir_exists (run rt ops (snd (call rt (Initialize s) w)))"
    unfolding w' by (simp add: kb_dir_exists_def d)
qed

text \<open>
  The amended C1 at work on the demo file system: after \<open>initialize_memory ''kb''\<close> the
  flag is true and the path is set; a second call with \<open>''kb/data''\<close> succeeds there,
  and after a search and a status call \<open>kb/data\<close> is the stored path and a directory.
\<close>

theorem kb_dir_after_initialize_witness:
  "reachable demo_rt (snd (call demo_rt (Initialize ''kb'') demo_world))
   \<and> initialized (globals (snd (call demo_rt (Initialize ''kb'') demo_world)))
   \<and> kb_path (globals (snd (call demo_rt (Initialize ''kb'') demo_world))) \<noteq> None
   \<and> succeeded (fst (call demo_rt (Initialize ''kb/data'')
                     (snd (call demo_rt (Initialize ''kb'') demo_world))))
   \<and> \<not> is_initialize (Search ''hello'' 5) \<and> \<not> is_initialize GetStatus
   \<and> initialized (globals (run demo_rt [Search ''hello'' 5, GetStatus]
         (snd (call demo_rt (Initialize ''kb/data'')
                (snd (call demo_rt (Initialize ''kb'') demo_world))))))
   \<and> kb_path (globals (run demo_rt [Search ''hello'' 5, GetStatus]
         (snd (call demo_rt (Initialize ''kb/data'')
                (snd (call demo_rt (Initialize ''kb'') demo_world))))))
       = Some (Path ''kb/data'')
   \<and> kb_dir_exists (run demo_rt [Search ''hello'' 5, GetStatus]
         (snd (call demo_rt (Initialize ''kb/data'')
                (snd (call demo_rt (Initialize ''kb'') demo_world)))))"
proof -
  have "reachable demo_rt demo_world"
    unfolding demo_world_def by (rule reachable.start)
  then have r: "reachable demo_rt (snd (call demo_rt (Initialize ''kb'') demo_world))"
    by (rule reachable.after)
  have f: "initialized (globals (snd (call demo_rt (Initialize ''kb'') demo_world)))"
    by (simp add: op_defs mkdir.simps fs_defs demo_defs)
  have s: "succeeded (fst (call demo_rt (Initialize ''kb/data'')
                     (snd (call demo_rt (Initialize ''kb'') demo_world))))"
    by (simp add: op_defs mkdir.simps fs_defs demo_defs)
  have n: "\<forall>op\<in>set [Search ''hello'' 5, GetStatus]. \<not> is_initialize op"
    by simp
  have i: "\<not> is_initialize (Search ''hello'' 5) \<and> \<not> is_initialize GetStatus"
    by simp
  from kb_dir_after_initialize [OF r, THEN conjunct1] f
  have p: "kb_path (globals (snd (call demo_rt (Initialize ''kb'') demo_world))) \<noteq> None"
    by blast
  from kb_dir_after_initialize [OF r, THEN conjunct2, rule_format,
         of "''kb/data''" "[Search ''hello'' 5, GetStatus]"] s n
  have "initialized (globals (run demo_rt [Search ''hello'' 5, GetStatus]
         (snd (call demo_rt (Initialize ''kb/data'')
                (snd (call demo_rt (Initialize ''kb'') demo_world))))))
   \<and> kb_path (globals (run demo_rt [Search ''hello'' 5, GetStatus]
         (snd (call demo_rt (Initialize ''kb/data'')
                (snd (call demo_rt (Initialize ''kb'') demo_world))))))
       = Some (Path ''kb/data'')
   \<and> kb_dir_exists (run demo_rt [Search ''hello'' 5, GetStatus]
         (snd (call demo_rt (Initialize ''kb/data'')
                (snd (call demo_rt (Initialize ''kb'') demo_world)))))"
    by blast
  with r f p s i show ?thesis by blast
qed

subsection \<open>C2: what a successful initialize stores and returns\<close>

text \<open>
  C2 as stated fails: the path is not resolved. On the demo file system, whose working
  directory is \<open>/home\<close>, \<open>initialize_memory ''kb''\<close> succeeds and creates \<open>/home/kb\<close>, but
  the path it stores and returns is the relative \<open>kb\<close>.
\<close>

theorem stored_path_not_resolved_counterexample:
  "succeeded (fst (initialize_memory demo_rt ''kb'' demo_world))
   \<and> kb_path (globals (snd (initialize_memory demo_rt ''kb'' demo_world)))
       = Some \<lparr>root = [], tail = [''kb'']\<rparr>
   \<and> \<not> is_resolved \<lparr>root = [], tail = [''kb'']\<rparr>
   \<and> fst (initialize_memory demo_rt ''kb'' demo_world)
       = Inr [(''success'', PyBool True),
              (''message'', PyStr ''Memory service initialized at kb''),
              (''kb_path'', PyStr ''kb'')]
   \<and> kind (fsys (snd (initialize_memory demo_rt ''kb'' demo_world))) [''home'', ''kb'']
       = Some Directory"
  by (simp add: op_defs mkdir.simps fs_defs demo_defs is_resolved_def)

text \<open>
  C2, amended: for every path string, when \<open>initialize_memory\<close> reports success, the
  globals hold the flag and the pathlib path of the string, unresolved, and the result is
  the success dict with the confirmation message and \<open>str\<close> of that path. The pathlib
  path is fixed by the string alone: its root is empty, \<open>/\<close> or \<open>//\<close> by the number of
  leading slashes (two give \<open>//\<close>); its components are the pieces of the string between
  slashes, without the empty ones and \<open>.\<close> (so \<open>..\<close> stays); and its \<open>str\<close> is the root
  followed by the components joined by slashes, or \<open>.\<close> when that is empty.
\<close>

theorem initialize_stores_pathlib_path:
  assumes "initialize_memory rt s w = (r, w')" and "succeeded r"
  shows "kb_path (globals w') = Some (Path s)
       \<and> initialized (globals w')
       \<and> r = Inr [(''success'', PyBool True),
                   (''message'', PyStr (''Memory service initialized at '' @ str_path (Path s))),
                   (''kb_path'', PyStr (str_path (Path s)))]
       \<and> root (Path s) =
           (if length (takeWhile (\<lambda>c. c = CHR ''/'') s) = 0 then []
            else if length (takeWhile (\<lambda>c. c = CHR ''/'') s) = 2 then ''//'' else ''/'')
       \<and> (\<forall>c \<in> set (split_sep CHR ''/'' s). CHR ''/'' \<notin> set c)
       \<and> concat (map (\<lambda>c. c @ ''/'') (split_sep CHR ''/'' s)) = s @ ''/''
       \<and> tail (Path s) = filter (\<lambda>c. c \<noteq> [] \<and> c \<noteq> ''.'') (split_sep CHR ''/'' s)
       \<and> str_path (Path s) =
           (if root (Path s) @ butlast (concat (map (\<lambda>c. c @ ''/'') (tail (Path s)))) = []
            then ''.''
            else root (Path s) @ butlast (concat (map (\<lambda>c. c @ ''/'') (tail (Path s)))))"
proof -
  from assms have a: "kb_path (globals w') = Some (Path s) \<and> initialized (globals w')
       \<and> r = Inr [(''success'', PyBool True),
                   (''message'', PyStr (''Memory service initialized at '' @ str_path (Path s))),
                   (''kb_path'', PyStr (str_path (Path s)))]"
    by (auto simp: initialize_memory_eq succeeded_def bool_at_def split: prod.splits sum.splits)
  have b: "\<forall>c \<in> set (split_sep CHR ''/'' s). CHR ''/'' \<notin> set c"
    by (simp add: split_sep_no_sep)
  have c: "concat (map (\<lambda>c. c @ ''/'') (split_sep CHR ''/'' s)) = s @ ''/''"
    by (rule split_sep_concat)
  from a b c Path_root [of s] Path_tail [of s] str_path_eq [of "Path s"]
  show ?thesis by blast
qed

text \<open>
  The amended C2 on the demo file system, on an absolute path with a doubled slash, a
  \<open>.\<close>, a \<open>..\<close> and a trailing slash: \<open>/home/kb/../data\<close> is stored and reported, and
  the directories \<open>/home/kb\<close> and \<open>/home/data\<close> are created.
\<close>

theorem initialize_stores_pathlib_path_witness:
  "initialize_memory demo_rt ''/home//kb/./../data/'' demo_world =
     (Inr [(''success'', PyBool True),
           (''message'', PyStr ''Memory service initialized at /home/kb/../data''),
           (''kb_path'', PyStr ''/home/kb/../data'')],
      \<lparr>globals = \<lparr>kb_path = Some \<lparr>root = ''/'', tail = [''home'', ''kb'', ''..'', ''data'']\<rparr>,
                   initialized = True\<rparr>,
       fsys = add_dir (add_dir demo_fs [''home'', ''kb'']) [''home'', ''data'']\<rparr>)
   \<and> succeeded (Inr [(''success'', PyBool True),
           (''message'', PyStr ''Memory service initialized at /home/kb/../data''),
           (''kb_path'', PyStr ''/home/kb/../data'')])
   \<and> split_sep CHR ''/'' ''/home//kb/./../data/''
       = [[], ''home'', [], ''kb'', ''.'', ''..'', ''data'', []]
   \<and> root (Path ''/home//kb/./../data/'') = ''/''
   \<and> tail (Path ''/home//kb/./../data/'') = [''home'', ''kb'', ''..'', ''data'']
   \<and> str_path (Path ''/home//kb/./../data/'') = ''/home/kb/../data''"
proof -
  have c: "initialize_memory demo_rt ''/home//kb/./../data/'' demo_world =
     (Inr [(''success'', PyBool True),
           (''message'', PyStr ''Memory service initialized at /home/kb/../data''),
           (''kb_path'', PyStr ''/home/kb/../data'')],
      \<lparr>globals = \<lparr>kb_path = Some \<lparr>root = ''/'', tail = [''home'', ''kb'', ''..'', ''data'']\<rparr>,
                   initialized = True\<rparr>,
       fsys = add_dir (add_dir demo_fs [''home'', ''kb'']) [''home'', ''data'']\<rparr>)"
    by (simp add: op_defs mkdir.simps fs_defs demo_defs)
  have s: "succeeded (Inr [(''success'', PyBool True),
           (''message'', PyStr ''Memory service initialized at /home/kb/../data''),
           (''kb_path'', PyStr ''/home/kb/../data'')])"
    by (simp add: succeeded_def bool_at_def)
  have l: "split_sep CHR ''/'' ''/home//kb/./../data/''
       = [[], ''home'', [], ''kb'', ''.'', ''..'', ''data'', []]"
    by simp
  note t = initialize_stores_pathlib_path [OF c s]
  note t3 = t [THEN conjunct2, THEN conjunct2, THEN conjunct2]
  note t6 = t3 [THEN conjunct2, THEN conjunct2, THEN conjunct2]
  have r: "root (Path ''/home//kb/./../data/'') = ''/''"
    using t3 [THEN conjunct1] by simp
  have tl: "tail (Path ''/home//kb/./../data/'') = [''home'', ''kb'', ''..'', ''data'']"
    using t6 [THEN conjunct1] by (simp only: l) simp
  have st: "str_path (Path ''/home//kb/./../data/'') = ''/home/kb/../data''"
    using t6 [THEN conjunct2] by (simp only: r tl) simp
  from c s l r tl st show ?thesis by (intro conjI)
qed

subsection \<open>C3: search and store before initialization\<close>

text \<open>
  C3: while \<open>initialized\<close> is false, \<open>search_memory\<close> and \<open>store_conversation\<close>
  return a dict (no exception) with \<open>success\<close> false and the message
  \<open>''Memory service not initialized''\<close>, for every input; the search dict also holds an
  empty \<open>results\<close> list. The world is unchanged.
\<close>

theorem uninitialized_calls_refused:
  assumes "\<not> initialized (globals w)"
  shows "search_memory rt query limit w =
           (Inr [(''success'', PyBool False),
                 (''message'', PyStr ''Memory service not initialized''),
                 (''results'', PyList [])], w)
       \<and> store_conversation rt conversation_id user_message assistant_message metadata w =
           (Inr [(''success'', PyBool False),
                 (''message'', PyStr ''Memory service not initialized'')], w)"
  using assms by (simp add: search_memory_def store_conversation_def)

text \<open>
  C3 in the initial world on the demo file system.
\<close>

theorem uninitialized_calls_refused_witness:
  "\<not> initialized (globals demo_world)
   \<and> search_memory demo_rt ''hello'' 5 demo_world =
           (Inr [(''success'', PyBool False),
                 (''message'', PyStr ''Memory service not initialized''),
                 (''results'', PyList [])], demo_world)
   \<and> store_conversation demo_rt ''c1'' ''hi'' ''hello'' None demo_world =
           (Inr [(''success'', PyBool False),
                 (''message'', PyStr ''Memory service not initialized'')], demo_world)"
proof -
  have n: "\<not> initialized (globals demo_world)"
    by (simp add: demo_defs)
  from uninitialized_calls_refused [OF n] n show ?thesis by simp
qed

subsection \<open>C4: no exception leaves an operation\<close>

text \<open>
  C4: every call of every operation, in every world, returns a dict and not an exception;
  its keys are distinct, and its boolean flag tells success from failure. Under
  \<open>success\<close>, \<open>initialize_memory\<close> reports whether the directory creation went through,
  \<open>search_memory\<close> and \<open>store_conversation\<close> report whether the service was initialized
  (their stub bodies cannot fail), and \<open>test_connection\<close> reports true. The dict of
  \<open>get_memory_status\<close> has no \<open>success\<close> key; its flag \<open>available\<close> reports whether the
  service is initialized.
\<close>

theorem no_exception_escapes:
  "\<exists>d. fst (call rt op w) = Inr d \<and> distinct (map fst d)
       \<and> bool_at (flag_key op) d =
           Some (case op of
                   Initialize s \<Rightarrow> fst (mkdir (fsys w) (Path s) True True) = Inr ()
                 | Search q n \<Rightarrow> initialized (globals w)
                 | Store c u a m \<Rightarrow> initialized (globals w)
                 | GetStatus \<Rightarrow> initialized (globals w)
                 | TestConnection \<Rightarrow> True)"
proof (cases op)
  case (Initialize s)
  then show ?thesis
    by (auto simp: initialize_memory_eq bool_at_def flag_key_def split: prod.splits sum.splits)
next
  case (Search q n)
  then show ?thesis
    by (auto simp: search_memory_def search_try_def bool_at_def flag_key_def)
next
  case (Store c u a m)
  then show ?thesis
    by (auto simp: store_conversation_def store_try_def bool_at_def flag_key_def)
next
  case GetStatus
  then show ?thesis
    by (auto simp: get_memory_status_def status_try_def bool_at_def flag_key_def)
next
  case TestConnection
  then show ?thesis
    by (auto simp: test_connection_def bool_at_def flag_key_def)
qed

text \<open>
  C4 on the demo file system. An \<open>initialize_memory\<close> whose \<open>mkdir\<close> fails reports
  false and one whose \<open>mkdir\<close> succeeds reports true; search, store and status report
  false before initialization and true after it; \<open>test_connection\<close> reports true.
\<close>

theorem no_exception_escapes_witness:
  "fst (mkdir demo_fs (Path ''/home/notes.txt/kb'') True True) \<noteq> Inr ()
   \<and> (\<exists>d. fst (call demo_rt (Initialize ''/home/notes.txt/kb'') demo_world) = Inr d
          \<and> distinct (map fst d) \<and> bool_at ''success'' d = Some False)
   \<and> fst (mkdir demo_fs (Path ''kb'') True True) = Inr ()
   \<and> (\<exists>d. fst (call demo_rt (Initialize ''kb'') demo_world) = Inr d
          \<and> distinct (map fst d) \<and> bool_at ''success'' d = Some True)
   \<and> (\<exists>d. fst (call demo_rt (Search ''hello'' 5) demo_world) = Inr d
          \<and> distinct (map fst d) \<and> bool_at ''success'' d = Some False)
   \<and> (\<exists>d. fst (call demo_rt (Search ''hello'' 5)
                 (snd (call demo_rt (Initialize ''kb'') demo_world))) = Inr d
          \<and> distinct (map fst d) \<and> bool_at ''success'' d = Some True)
   \<and> (\<exists>d. fst (call demo_rt (Store ''c1'' ''hi'' ''hello'' None) demo_world) = Inr d
          \<and> distinct (map fst d) \<and> bool_at ''success'' d = Some False)
   \<and> (\<exists>d. fst (call demo_rt (Store ''c1'' ''hi'' ''hello'' None)
                 (snd (call demo_rt (Initialize ''kb'') demo_world))) = Inr d
          \<and> distinct (map fst d) \<and> bool_at ''success'' d = Some True)
   \<and> (\<exists>d. fst (call demo_rt GetStatus demo_world) = Inr d
          \<and> distinct (map fst d) \<and> bool_at ''available'' d = Some False)
   \<and> (\<exists>d. fst (call demo_rt GetStatus
                 (snd (call demo_rt (Initialize ''kb'') demo_world))) = Inr d
          \<and> distinct (map fst d) \<and> bool_at ''available'' d = Some True)
   \<and> (\<exists>d. fst (call demo_rt TestConnection demo_world) = Inr d
          \<and> distinct (map fst d) \<and> bool_at ''success'' d = Some True)"
proof -
  have bad: "fst (mkdir demo_fs (Path ''/home/notes.txt/kb'') True True) \<noteq> Inr ()"
    by (simp add: mkdir.simps fs_defs demo_defs)
  have good: "fst (mkdir demo_fs (Path ''kb'') True True) = Inr ()"
    by (simp add: mkdir.simps fs_defs demo_defs)
  have f0: "fsys demo_world = demo_fs" "\<not> initialized (globals demo_world)"
    by (simp_all add: demo_defs)
  have f1: "initialized (globals (snd (call demo_rt (Initialize ''kb'') demo_world)))"
    by (simp add: op_defs mkdir.simps fs_defs demo_defs)
  have a: "\<exists>d. fst (call demo_rt (Initialize ''/home/notes.txt/kb'') demo_world) = Inr d
          \<and> distinct (map fst d) \<and> bool_at ''success'' d = Some False"
    using no_exception_escapes [of demo_rt "Initialize ''/home/notes.txt/kb''" demo_world] bad
    by (simp add: flag_key_def f0)
  have b: "\<exists>d. fst (call demo_rt (Initialize ''kb'') demo_world) = Inr d
          \<and> distinct (map fst d) \<and> bool_at ''success'' d = Some True"
    using no_exception_escapes [of demo_rt "Initialize ''kb''" demo_world] good
    by (simp add: flag_key_def f0)
  have c: "\<exists>d. fst (call demo_rt (Search ''hello'' 5) demo_world) = Inr d
          \<and> distinct (map fst d) \<and> bool_at ''success'' d = Some False"
    using no_exception_escapes [of demo_rt "Search ''hello'' 5" demo_world]
    by (simp add: flag_key_def f0)
  have d: "\<exists>d. fst (call demo_rt (Search ''hello'' 5)
                 (snd (call demo_rt (Initialize ''kb'') demo_world))) = Inr d
          \<and> distinct (map fst d) \<and> bool_at ''success'' d = Some True"
    using no_exception_escapes [of demo_rt "Search ''hello'' 5"
            "snd (call demo_rt (Initialize ''kb'') demo_world)"]
    by (simp only: flag_key_def f1 operation.case)
  have e: "\<exists>d. fst (call demo_rt (Store ''c1'' ''hi'' ''hello'' None) demo_world) = Inr d
          \<and> distinct (map fst d) \<and> bool_at ''success'' d = Some False"
    using no_exception_escapes [of demo_rt "Store ''c1'' ''hi'' ''hello'' None" demo_world]
    by (simp add: flag_key_def f0)
  have f: "\<exists>d. fst (call demo_rt (Store ''c1'' ''hi'' ''hello'' None)
                 (snd (call demo_rt (Initialize ''kb'') demo_world))) = Inr d
          \<and> distinct (map fst d) \<and> bool_at ''success'' d = Some True"
    using no_exception_escapes [of demo_rt "Store ''c1'' ''hi'' ''hello'' None"
            "snd (call demo_rt (Initialize ''kb'') demo_world)"]
    by (simp only: flag_key_def f1 operation.case)
  have g: "\<exists>d. fst (call demo_rt GetStatus demo_world) = Inr d
          \<and> distinct (map fst d) \<and> bool_at ''available'' d = Some False"
    using no_exception_escapes [of demo_rt GetStatus demo_world]
    by (simp add: flag_key_def f0)
  have h: "\<exists>d. fst (call demo_rt GetStatus
                 (snd (call demo_rt (Initialize ''kb'') demo_world))) = Inr d
          \<and> distinct (map fst d) \<and> bool_at ''available'' d = Some True"
    using no_exception_escapes [of demo_rt GetStatus
            "snd (call demo_rt (Initialize ''kb'') demo_world)"]
    by (simp only: flag_key_def f1 operation.case)
  have i: "\<exists>d. fst (call demo_rt TestConnection demo_world) = Inr d
          \<and> distinct (map fst d) \<and> bool_at ''success'' d = Some True"
    using no_exception_escapes [of demo_rt TestConnection demo_world]
    by (simp add: flag_key_def)
  from bad a good b c d e f g h i show ?thesis by (intro conjI)
qed

subsection \<open>C5: initialize is idempotent\<close>

text \<open>
  C5: when \<open>initialize_memory\<close> succeeds on a path, calling it again with the same path
  in the world it produced succeeds with the same result and leaves that world, globals
  and file system, as it is.
\<close>

theorem initialize_idempotent:
  assumes "initialize_memory rt s w = (r, w1)" and "succeeded r"
  shows "initialize_memory rt s w1 = (r, w1)"
proof -
  from assms obtain u fs' where m: "mkdir (fsys w) (Path s) True True = (Inr u, fs')"
    by (auto simp: initialize_memory_eq succeeded_def bool_at_def split: prod.splits sum.splits)
  with assms(1) have w1: "w1 = \<lparr>globals = \<lparr>kb_path = Some (Path s), initialized = True\<rparr>, fsys = fs'\<rparr>"
    and r: "r = Inr [(''success'', PyBool True),
                     (''message'', PyStr (''Memory service initialized at '' @ str_path (Path s))),
                     (''kb_path'', PyStr (str_path (Path s)))]"
    by (auto simp: initialize_memory_eq)
  from m have "is_dir fs' (Path s)" by (rule mkdir_is_dir)
  then have "mkdir fs' (Path s) True True = (Inr (), fs')" by (rule mkdir_existing)
  then show ?thesis by (simp add: initialize_memory_eq w1 r)
qed

text \<open>
  C5 on the demo file system with the path \<open>''kb/data''\<close>.
\<close>

theorem initialize_idempotent_witness:
  "succeeded (fst (initialize_memory demo_rt ''kb/data'' demo_world))
   \<and> initialize_memory demo_rt ''kb/data'' (snd (initialize_memory demo_rt ''kb/data'' demo_world))
       = initialize_memory demo_rt ''kb/data'' demo_world"
proof -
  have s: "succeeded (fst (initialize_memory demo_rt ''kb/data'' demo_world))"
    by (simp add: op_defs mkdir.simps fs_defs demo_defs)
  from initialize_idempotent [OF prod.collapse [symmetric] s] s show ?thesis by simp
qed

subsection \<open>C6: the flag is never reset\<close>

text \<open>
  C6: if \<open>initialized\<close> is true, it is true after any sequence of calls of the five
  operations (a failing \<open>initialize_memory\<close> among them or not). It is false at the
  start, and after a sequence of calls from the start it is true exactly when some
  \<open>initialize_memory\<close> call of the sequence succeeded.
\<close>

theorem initialized_never_reset:
  "(initialized (globals w) \<longrightarrow> initialized (globals (run rt ops w)))
   \<and> \<not> initialized initial_state
   \<and> initialized (globals (run rt ops \<lparr>globals = initial_state, fsys = fs0\<rparr>))
       = init_succeeds rt ops \<lparr>globals = initial_state, fsys = fs0\<rparr>"
  by (simp add: run_flag) (simp add: initial_state_def)

text \<open>
  C6 on the demo file system: the flag survives a failing initialize and the other four
  calls, and a run from the start whose only initialize fails leaves it false.
\<close>

theorem initialized_never_reset_witness:
  "initialized (globals (snd (initialize_memory demo_rt ''kb'' demo_world)))
   \<and> \<not> succeeded (fst (initialize_memory demo_rt ''/home/notes.txt/kb''
                        (snd (initialize_memory demo_rt ''kb'' demo_world))))
   \<and> initialized (globals (run demo_rt
         [Initialize ''/home/notes.txt/kb'', Search ''hello'' 5, Store ''c1'' ''hi'' ''hello'' None,
          GetStatus, TestConnection]
         (snd (initialize_memory demo_rt ''kb'' demo_world))))
   \<and> \<not> init_succeeds demo_rt [Search ''hello'' 5, Initialize ''/home/notes.txt/kb'', GetStatus]
         \<lparr>globals = initial_state, fsys = demo_fs\<rparr>
   \<and> \<not> initialized (globals (run demo_rt
         [Search ''hello'' 5, Initialize ''/home/notes.txt/kb'', GetStatus]
         \<lparr>globals = initial_state, fsys = demo_fs\<rparr>))"
proof -
  have a: "initialized (globals (snd (initialize_memory demo_rt ''kb'' demo_world)))"
    by (simp add: op_defs mkdir.simps fs_defs demo_defs)
  have b: "\<not> succeeded (fst (initialize_memory demo_rt ''/home/notes.txt/kb''
                        (snd (initialize_memory demo_rt ''kb'' demo_world))))"
    by (simp add: op_defs mkdir.simps fs_defs demo_defs)
  have c: "\<not> init_succeeds demo_rt [Search ''hello'' 5, Initialize ''/home/notes.txt/kb'', GetStatus]
         \<lparr>globals = initial_state, fsys = demo_fs\<rparr>"
    by (simp add: op_defs mkdir.simps fs_defs demo_defs)
  from initialized_never_reset
         [of "snd (initialize_memory demo_rt ''kb'' demo_world)" demo_rt
             "[Initialize ''/home/notes.txt/kb'', Search ''hello'' 5,
               Store ''c1'' ''hi'' ''hello'' None, GetStatus, TestConnection]"]
       initialized_never_reset
         [of demo_world demo_rt
             "[Search ''hello'' 5, Initialize ''/home/notes.txt/kb'', GetStatus]" demo_fs]
       a b c
  show ?thesis by blast
qed

subsection \<open>C7: search after initialization\<close>

text \<open>
  C7: while \<open>initialized\<close> is true, \<open>search_memory\<close> returns, for every query and
  every limit, the dict with \<open>success\<close> true, the query, an empty \<open>results\<close> list and
  the message \<open>''Search functionality coming soon''\<close>, and leaves the world as it is; the
  limit does not change the result.
\<close>

theorem search_after_initialize:
  assumes "initialized (globals w)"
  shows "search_memory rt query limit w =
           (Inr [(''success'', PyBool True),
                 (''query'', PyStr query),
                 (''results'', PyList []),
                 (''message'', PyStr ''Search functionality coming soon'')], w)
       \<and> search_memory rt query limit' w = search_memory rt query limit w"
  using assms by (simp add: search_memory_def search_try_def)

text \<open>
  C7 after a successful initialize on the demo file system, with limits 5 and 0.
\<close>

theorem search_after_initialize_witness:
  "initialized (globals (snd (initialize_memory demo_rt ''kb'' demo_world)))
   \<and> fst (search_memory demo_rt ''hello'' 5 (snd (initialize_memory demo_rt ''kb'' demo_world))) =
        Inr [(''success'', PyBool True),
             (''query'', PyStr ''hello''),
             (''results'', PyList []),
             (''message'', PyStr ''Search functionality coming soon'')]
   \<and> search_memory demo_rt ''hello'' 0 (snd (initialize_memory demo_rt ''kb'' demo_world))
       = search_memory demo_rt ''hello'' 5 (snd (initialize_memory demo_rt ''kb'' demo_world))"
proof -
  have a: "initialized (globals (snd (initialize_memory demo_rt ''kb'' demo_world)))"
    by (simp add: op_defs mkdir.simps fs_defs demo_defs)
  from search_after_initialize [OF a, of demo_rt "''hello''" 5 0] a show ?thesis by simp
qed

subsection \<open>C8: store after initialization\<close>

text \<open>
  C8: while \<open>initialized\<close> is true, \<open>store_conversation\<close> returns, for every
  conversation id, messages and metadata, the dict with \<open>success\<close> true and the same
  conversation id, and leaves the world (globals and file system) as it is.
\<close>

theorem store_after_initialize:
  assumes "initialized (globals w)"
  shows "store_conversation rt conversation_id user_message assistant_message metadata w =
           (Inr [(''success'', PyBool True),
                 (''conversation_id'', PyStr conversation_id),
                 (''message'', PyStr ''Conversation stored successfully'')], w)"
  using assms by (simp add: store_conversation_def store_try_def)

text \<open>
  C8 after a successful initialize on the demo file system.
\<close>

theorem store_after_initialize_witness:
  "initialized (globals (snd (initialize_memory demo_rt ''kb'' demo_world)))
   \<and> store_conversation demo_rt ''c1'' ''hi'' ''hello'' None
         (snd (initialize_memory demo_rt ''kb'' demo_world)) =
        (Inr [(''success'', PyBool True),
              (''conversation_id'', PyStr ''c1''),
              (''message'', PyStr ''Conversation stored successfully'')],
         snd (initialize_memory demo_rt ''kb'' demo_world))"
proof -
  have a: "initialized (globals (snd (initialize_memory demo_rt ''kb'' demo_world)))"
    by (simp add: op_defs mkdir.simps fs_defs demo_defs)
  from store_after_initialize [OF a, of demo_rt "''c1''" "''hi''" "''hello''" None] a
  show ?thesis by simp
qed

subsection \<open>C9: a failing initialize is not atomic\<close>

text \<open>
  C9: when \<open>initialize_memory\<close> reports failure, it returns the failure dict, the path
  global nevertheless holds the path of this call, the flag is as before, and
  \<open>get_memory_status\<close> afterwards reports that path.
\<close>

theorem failed_initialize_keeps_new_path:
  assumes "initialize_memory rt s w = (r, w')" and "\<not> succeeded r"
  shows "(\<exists>e. r = Inr [(''success'', PyBool False),
                       (''message'', PyStr (''Failed to initialize: '' @ str_exn rt e)),
                       (''error'', PyStr (str_exn rt e))])
       \<and> kb_path (globals w') = Some (Path s)
       \<and> initialized (globals w') = initialized (globals w)
       \<and> (\<exists>d. fst (get_memory_status rt w') = Inr d
              \<and> map_of d ''kb_path'' = Some (PyStr (str_path (Path s))))"
  using assms
  by (auto simp: initialize_memory_eq succeeded_def bool_at_def get_memory_status_def
        status_try_def split: prod.splits sum.splits)

text \<open>
  C9 on the demo file system: after a successful initialize at \<open>kb\<close>, a failing one at
  \<open>/home/notes.txt/kb\<close> changes the stored path, and the status reports the new one.
\<close>

theorem failed_initialize_keeps_new_path_witness:
  "\<not> succeeded (fst (initialize_memory demo_rt ''/home/notes.txt/kb''
                     (snd (initialize_memory demo_rt ''kb'' demo_world))))
   \<and> kb_path (globals (snd (initialize_memory demo_rt ''kb'' demo_world))) = Some (Path ''kb'')
   \<and> kb_path (globals (snd (initialize_memory demo_rt ''/home/notes.txt/kb''
                     (snd (initialize_memory demo_rt ''kb'' demo_world)))))
       = Some (Path ''/home/notes.txt/kb'')
   \<and> Path ''kb'' \<noteq> Path ''/home/notes.txt/kb''
   \<and> (\<exists>d. fst (get_memory_status demo_rt
                 (snd (initialize_memory demo_rt ''/home/notes.txt/kb''
                     (snd (initialize_memory demo_rt ''kb'' demo_world))))) = Inr d
          \<and> map_of d ''kb_path'' = Some (PyStr ''/home/notes.txt/kb''))"
proof -
  have a: "\<not> succeeded (fst (initialize_memory demo_rt ''/home/notes.txt/kb''
                     (snd (initialize_memory demo_rt ''kb'' demo_world))))"
    by (simp add: op_defs mkdir.simps fs_defs demo_defs)
  have b: "kb_path (globals (snd (initialize_memory demo_rt ''kb'' demo_world))) = Some (Path ''kb'')"
    by (simp add: initialize_memory_eq split: prod.splits sum.splits)
  have c: "Path ''kb'' \<noteq> Path ''/home/notes.txt/kb''"
    by (simp add: fs_defs)
  have d: "str_path (Path ''/home/notes.txt/kb'') = ''/home/notes.txt/kb''"
    by (simp add: fs_defs)
  from failed_initialize_keeps_new_path [OF prod.collapse [symmetric] a] a b c
  show ?thesis unfolding d by blast
qed

subsection \<open>C10: initialize with the empty string\<close>

text \<open>
  C10: when the working directory exists, \<open>initialize_memory\<close> with the empty string
  succeeds: the path is the empty relative path, which prints as \<open>''.''\<close> and is looked
  up at the working directory; the flag becomes true, the success dict is returned and
  the file system is unchanged.
\<close>

theorem initialize_empty_string:
  assumes "kind (fsys w) (cwd (fsys w)) = Some Directory"
  shows "initialize_memory rt '''' w =
           (Inr [(''success'', PyBool True),
                 (''message'', PyStr ''Memory service initialized at .''),
                 (''kb_path'', PyStr ''.'')],
            \<lparr>globals = \<lparr>kb_path = Some (Path ''''), initialized = True\<rparr>, fsys = fsys w\<rparr>)
       \<and> str_path (Path '''') = ''.''
       \<and> start (fsys w) (Path '''') = cwd (fsys w) \<and> tail (Path '''') = []"
proof -
  have p: "Path '''' = \<lparr>root = [], tail = []\<rparr>" by (simp add: Path_def)
  have s: "str_path (Path '''') = ''.''" by (simp add: p str_path_def)
  from assms have "is_dir (fsys w) (Path '''')"
    by (simp add: is_dir_def has_nul_def stat_def start_def p str_path_def)
  then have "mkdir (fsys w) (Path '''') True True = (Inr (), fsys w)"
    by (rule mkdir_existing)
  then show ?thesis
    by (simp add: initialize_memory_eq s) (simp add: p start_def)
qed

text \<open>
  C10 on the demo file system, whose working directory \<open>/home\<close> exists.
\<close>

theorem initialize_empty_string_witness:
  "kind (fsys demo_world) (cwd (fsys demo_world)) = Some Directory
   \<and> initialize_memory demo_rt '''' demo_world =
           (Inr [(''success'', PyBool True),
                 (''message'', PyStr ''Memory service initialized at .''),
                 (''kb_path'', PyStr ''.'')],
            \<lparr>globals = \<lparr>kb_path = Some (Path ''''), initialized = True\<rparr>, fsys = demo_fs\<rparr>)"
proof -
  have a: "kind (fsys demo_world) (cwd (fsys demo_world)) = Some Directory"
    by (simp add: kind_def demo_defs)
  have b: "fsys demo_world = demo_fs" by (simp add: demo_world_def)
  from initialize_empty_string [OF a, of demo_rt] a show ?thesis
    unfolding b by simp
qed

end
